theory Spec2Isabelle
  imports Complex_Main "HOL-Library.Word"
begin

section \<open>Python values and keyword dictionaries\<close>

text \<open>
  The module \<^verbatim>\<open>litellm/proxy/_types.py\<close> declares pydantic models. Their validators
  work on the raw keyword dictionary \<^verbatim>\<open>values\<close>, whose entries are untyped Python
  values. A dictionary is an association list: Python dictionaries keep insertion order.
\<close>

datatype pyval =
    PNone
  | PBool bool
  | PInt int
  | PFloat real
  | PStr string
  | PDatetime int
  | PList "pyval list"
  | PDict "(string \<times> pyval) list"

type_synonym pydict = "(string \<times> pyval) list"

text \<open>\<^verbatim>\<open>values.get(k)\<close>: the value stored under \<open>k\<close>, and \<^verbatim>\<open>None\<close> for a missing key.\<close>

definition dict_get :: "pydict \<Rightarrow> string \<Rightarrow> pyval" where
  "dict_get values k = (case map_of values k of None \<Rightarrow> PNone | Some v \<Rightarrow> v)"

text \<open>\<^verbatim>\<open>values.update({k: v})\<close> and \<^verbatim>\<open>values[k] = v\<close>: an existing key keeps its place.\<close>

fun dict_update :: "string \<Rightarrow> pyval \<Rightarrow> pydict \<Rightarrow> pydict" where
  "dict_update k v [] = [(k, v)]"
| "dict_update k v ((k', v') # values) =
     (if k' = k then (k, v) # values else (k', v') # dict_update k v values)"

definition dict_keys :: "pydict \<Rightarrow> string list" where
  "dict_keys values = map fst values"

text \<open>
  Exceptions. A \<^verbatim>\<open>ValueError\<close> raised inside a root validator reaches the caller of the
  constructor as a pydantic \<^verbatim>\<open>ValidationError\<close>; its first component is the location
  (\<^verbatim>\<open>__root__\<close> for a root validator, the field name for a field), its second the message.
\<close>

datatype error =
    ValueError string
  | AttributeError string
  | ValidationError string string

section \<open>Construction of a pydantic model\<close>

text \<open>
  A class body is a table of field declarations: name, annotation, and default
  (\<open>None\<close> for a required field). Construction runs the class's \<^verbatim>\<open>root_validator(pre=True)\<close>
  on the keyword dictionary, then checks each declared field against its annotation, a
  missing field taking its declared default. Keys that name no field are kept, dropped or
  refused according to \<^verbatim>\<open>Config.extra\<close> (pydantic's default drops them).
\<close>

datatype ftype =
    TAny
  | TStr
  | TInt
  | TFloat
  | TBool
  | TList
  | TDict
  | TDatetime
  | TLiteral "string list"
  | TOptional ftype
  | TListOf ftype
  | TDictOf ftype
  | TModel "pydict \<Rightarrow> pydict option"

type_synonym field_decl = "string \<times> ftype \<times> pyval option"

datatype extra = Ignore | Allow | Forbid

fun those_all :: "'a option list \<Rightarrow> 'a list option" where
  "those_all [] = Some []"
| "those_all (None # xs) = None"
| "those_all (Some x # xs) = (case those_all xs of None \<Rightarrow> None | Some ys \<Rightarrow> Some (x # ys))"

text \<open>
  What a field annotation accepts, and the value it stores. Only conversions common to
  the pydantic versions the module supports are modelled: an \<^verbatim>\<open>int\<close> is accepted for a
  \<^verbatim>\<open>float\<close> field.
\<close>

fun coerce :: "ftype \<Rightarrow> pyval \<Rightarrow> pyval option" where
  "coerce TAny v = Some v"
| "coerce TStr v = (case v of PStr s \<Rightarrow> Some (PStr s) | _ \<Rightarrow> None)"
| "coerce TInt v = (case v of PInt i \<Rightarrow> Some (PInt i) | _ \<Rightarrow> None)"
| "coerce TFloat v =
     (case v of PFloat f \<Rightarrow> Some (PFloat f) | PInt i \<Rightarrow> Some (PFloat (of_int i)) | _ \<Rightarrow> None)"
| "coerce TBool v = (case v of PBool b \<Rightarrow> Some (PBool b) | _ \<Rightarrow> None)"
| "coerce TList v = (case v of PList xs \<Rightarrow> Some (PList xs) | _ \<Rightarrow> None)"
| "coerce TDict v = (case v of PDict d \<Rightarrow> Some (PDict d) | _ \<Rightarrow> None)"
| "coerce TDatetime v = (case v of PDatetime t \<Rightarrow> Some (PDatetime t) | _ \<Rightarrow> None)"
| "coerce (TLiteral ls) v =
     (case v of PStr s \<Rightarrow> if s \<in> set ls then Some (PStr s) else None | _ \<Rightarrow> None)"
| "coerce (TOptional t) v = (case v of PNone \<Rightarrow> Some PNone | _ \<Rightarrow> coerce t v)"
| "coerce (TListOf t) v =
     (case v of
        PList xs \<Rightarrow> (case those_all (map (coerce t) xs) of None \<Rightarrow> None | Some ys \<Rightarrow> Some (PList ys))
      | _ \<Rightarrow> None)"
| "coerce (TDictOf t) v =
     (case v of
        PDict d \<Rightarrow>
          (case those_all (map (\<lambda>(k, x). case coerce t x of None \<Rightarrow> None | Some y \<Rightarrow> Some (k, y)) d) of
             None \<Rightarrow> None
           | Some d' \<Rightarrow> Some (PDict d'))
      | _ \<Rightarrow> None)"
| "coerce (TModel validate) v =
     (case v of PDict d \<Rightarrow> (case validate d of None \<Rightarrow> None | Some d' \<Rightarrow> Some (PDict d')) | _ \<Rightarrow> None)"

fun validate_fields :: "field_decl list \<Rightarrow> pydict \<Rightarrow> error + pydict" where
  "validate_fields [] values = Inr []"
| "validate_fields ((name, t, dflt) # fields) values =
     (case map_of values name of
        None \<Rightarrow>
          (case dflt of
             None \<Rightarrow> Inl (ValidationError name ''field required'')
           | Some d \<Rightarrow>
               (case validate_fields fields values of
                  Inl e \<Rightarrow> Inl e
                | Inr obj \<Rightarrow> Inr ((name, d) # obj)))
      | Some v \<Rightarrow>
          (case coerce t v of
             None \<Rightarrow> Inl (ValidationError name ''invalid value'')
           | Some v' \<Rightarrow>
               (case validate_fields fields values of
                  Inl e \<Rightarrow> Inl e
                | Inr obj \<Rightarrow> Inr ((name, v') # obj))))"

definition extra_items :: "field_decl list \<Rightarrow> pydict \<Rightarrow> pydict" where
  "extra_items fields values = filter (\<lambda>(k, v). k \<notin> set (map fst fields)) values"

definition validate_model :: "extra \<Rightarrow> field_decl list \<Rightarrow> pydict \<Rightarrow> error + pydict" where
  "validate_model ex fields values =
     (case validate_fields fields values of
        Inl e \<Rightarrow> Inl e
      | Inr obj \<Rightarrow>
          (case ex of
             Ignore \<Rightarrow> Inr obj
           | Allow \<Rightarrow> Inr (obj @ extra_items fields values)
           | Forbid \<Rightarrow>
               (case extra_items fields values of
                  [] \<Rightarrow> Inr obj
                | (k, v) # rest \<Rightarrow> Inl (ValidationError k ''extra fields not permitted''))))"

definition construct ::
  "extra \<Rightarrow> field_decl list \<Rightarrow> (pydict \<Rightarrow> error + pydict) \<Rightarrow> pydict \<Rightarrow> error + pydict" where
  "construct ex fields pre kwargs =
     (case pre kwargs of
        Inl (ValueError msg) \<Rightarrow> Inl (ValidationError ''__root__'' msg)
      | Inl e \<Rightarrow> Inl e
      | Inr values \<Rightarrow> validate_model ex fields values)"

text \<open>A class without a root validator.\<close>

definition no_validator :: "pydict \<Rightarrow> error + pydict" where
  "no_validator values = Inr values"

text \<open>Every supplied field passes its annotation and every required field is supplied.\<close>

definition fields_ok :: "field_decl list \<Rightarrow> pydict \<Rightarrow> bool" where
  "fields_ok fields values =
     list_all (\<lambda>(name, t, dflt).
        case map_of values name of None \<Rightarrow> dflt \<noteq> None | Some v \<Rightarrow> coerce t v \<noteq> None) fields"

section \<open>End-user, member and user-update requests\<close>





text \<open>
  A subclass inherits the field table of its base; a field it declares again replaces the
  inherited declaration in place, a new field is appended.
\<close>

definition inherit :: "field_decl list \<Rightarrow> field_decl list \<Rightarrow> field_decl list" where
  "inherit base decls =
     map (\<lambda>(n, t, d). case map_of decls n of None \<Rightarrow> (n, t, d) | Some (t', d') \<Rightarrow> (n, t', d')) base
     @ filter (\<lambda>(n, t, d). n \<notin> set (map fst base)) decls"

definition Member_fields :: "field_decl list" where
  "Member_fields =
     [(''role'', TLiteral [''admin'', ''user''], None),
      (''user_id'', TOptional TStr, Some PNone),
      (''user_email'', TOptional TStr, Some PNone)]"

definition Member_check_user_info :: "pydict \<Rightarrow> error + pydict" where
  "Member_check_user_info values =
     (if dict_get values ''user_id'' = PNone \<and> dict_get values ''user_email'' = PNone
      then Inl (ValueError ''Either user id or user email must be provided'')
      else Inr values)"

definition Member :: "pydict \<Rightarrow> error + pydict" where
  "Member = construct Ignore Member_fields Member_check_user_info"

definition GenerateRequestBase_fields :: "field_decl list" where
  "GenerateRequestBase_fields =
     [(''models'', TOptional TList, Some (PList [])),
      (''spend'', TOptional TFloat, Some (PInt 0)),
      (''max_budget'', TOptional TFloat, Some PNone),
      (''user_id'', TOptional TStr, Some PNone),
      (''team_id'', TOptional TStr, Some PNone),
      (''max_parallel_requests'', TOptional TInt, Some PNone),
      (''metadata'', TOptional TDict, Some (PDict [])),
      (''tpm_limit'', TOptional TInt, Some PNone),
      (''rpm_limit'', TOptional TInt, Some PNone),
      (''budget_duration'', TOptional TStr, Some PNone),
      (''allowed_cache_controls'', TOptional TList, Some (PList [])),
      (''soft_budget'', TOptional TFloat, Some PNone)]"

definition UpdateUserRequest_fields :: "field_decl list" where
  "UpdateUserRequest_fields =
     inherit GenerateRequestBase_fields
       [(''user_id'', TOptional TStr, Some PNone),
        (''user_email'', TOptional TStr, Some PNone),
        (''spend'', TOptional TFloat, Some PNone),
        (''metadata'', TOptional TDict, Some PNone),
        (''user_role'', TOptional TStr, Some PNone),
        (''max_budget'', TOptional TFloat, Some PNone)]"

definition UpdateUserRequest_check_user_info :: "pydict \<Rightarrow> error + pydict" where
  "UpdateUserRequest_check_user_info values =
     (if dict_get values ''user_id'' = PNone \<and> dict_get values ''user_email'' = PNone
      then Inl (ValueError ''Either user id or user email must be provided'')
      else Inr values)"

definition UpdateUserRequest :: "pydict \<Rightarrow> error + pydict" where
  "UpdateUserRequest = construct Ignore UpdateUserRequest_fields UpdateUserRequest_check_user_info"

definition TeamMemberDeleteRequest_fields :: "field_decl list" where
  "TeamMemberDeleteRequest_fields =
     [(''team_id'', TStr, None),
      (''user_id'', TOptional TStr, Some PNone),
      (''user_email'', TOptional TStr, Some PNone)]"

definition TeamMemberDeleteRequest_check_user_info :: "pydict \<Rightarrow> error + pydict" where
  "TeamMemberDeleteRequest_check_user_info values =
     (if dict_get values ''user_id'' = PNone \<and> dict_get values ''user_email'' = PNone
      then Inl (ValueError ''Either user id or user email must be provided'')
      else Inr values)"

definition TeamMemberDeleteRequest :: "pydict \<Rightarrow> error + pydict" where
  "TeamMemberDeleteRequest =
     construct Ignore TeamMemberDeleteRequest_fields TeamMemberDeleteRequest_check_user_info"

section \<open>Hashing a token\<close>




section \<open>Keys and the key-authentication record\<close>

definition LiteLLM_VerificationToken_fields :: "field_decl list" where
  "LiteLLM_VerificationToken_fields =
     [(''token'', TOptional TStr, Some PNone),
      (''key_name'', TOptional TStr, Some PNone),
      (''key_alias'', TOptional TStr, Some PNone),
      (''spend'', TFloat, Some (PFloat 0)),
      (''max_budget'', TOptional TFloat, Some PNone),
      (''expires'', TOptional TStr, Some PNone),
      (''models'', TList, Some (PList [])),
      (''aliases'', TDict, Some (PDict [])),
      (''config'', TDict, Some (PDict [])),
      (''user_id'', TOptional TStr, Some PNone),
      (''team_id'', TOptional TStr, Some PNone),
      (''max_parallel_requests'', TOptional TInt, Some PNone),
      (''metadata'', TDict, Some (PDict [])),
      (''tpm_limit'', TOptional TInt, Some PNone),
      (''rpm_limit'', TOptional TInt, Some PNone),
      (''budget_duration'', TOptional TStr, Some PNone),
      (''budget_reset_at'', TOptional TDatetime, Some PNone),
      (''allowed_cache_controls'', TOptional TList, Some (PList [])),
      (''permissions'', TDict, Some (PDict [])),
      (''model_spend'', TDict, Some (PDict [])),
      (''model_max_budget'', TDict, Some (PDict [])),
      (''soft_budget_cooldown'', TBool, Some (PBool False)),
      (''litellm_budget_table'', TOptional TDict, Some PNone),
      (''org_id'', TOptional TStr, Some PNone),
      (''user_id_rate_limits'', TOptional TDict, Some PNone),
      (''team_id_rate_limits'', TOptional TDict, Some PNone)]"

definition LiteLLM_VerificationToken :: "pydict \<Rightarrow> error + pydict" where
  "LiteLLM_VerificationToken = construct Ignore LiteLLM_VerificationToken_fields no_validator"






section \<open>The JWT-auth profile and the chat-completion request\<close>

definition LiteLLM_JWTAuth_fields :: "field_decl list" where
  "LiteLLM_JWTAuth_fields =
     [(''admin_jwt_scope'', TStr, Some (PStr ''litellm_proxy_admin'')),
      (''admin_allowed_routes'',
         TListOf (TLiteral [''openai_routes'', ''info_routes'', ''management_routes'',
                            ''spend_tracking_routes'', ''global_spend_tracking_routes'']),
         Some (PList [PStr ''management_routes'', PStr ''spend_tracking_routes'',
                      PStr ''global_spend_tracking_routes'', PStr ''info_routes''])),
      (''team_id_jwt_field'', TOptional TStr, Some PNone),
      (''team_allowed_routes'',
         TListOf (TLiteral [''openai_routes'', ''info_routes'', ''management_routes'']),
         Some (PList [PStr ''openai_routes'', PStr ''info_routes''])),
      (''team_id_default'', TOptional TStr, Some PNone),
      (''org_id_jwt_field'', TOptional TStr, Some PNone),
      (''user_id_jwt_field'', TOptional TStr, Some PNone),
      (''user_id_upsert'', TBool, Some (PBool False)),
      (''end_user_id_jwt_field'', TOptional TStr, Some PNone),
      (''public_key_ttl'', TFloat, Some (PInt 600))]"

text \<open>\<^verbatim>\<open>sep.join(xs)\<close>\<close>

fun join :: "string \<Rightarrow> string list \<Rightarrow> string" where
  "join sep [] = []"
| "join sep [x] = x"
| "join sep (x # y # xs) = x @ sep @ join sep (y # xs)"

text \<open>
  \<^verbatim>\<open>LiteLLM_JWTAuth.__init__\<close>: \<^verbatim>\<open>allowed_keys\<close> are the names annotated in the class body,
  \<^verbatim>\<open>invalid_keys\<close> the keyword names outside them. The message lists the invalid keys in
  the order of the call; the order in which Python iterates the set is not modelled.
\<close>

definition LiteLLM_JWTAuth :: "pydict \<Rightarrow> error + pydict" where
  "LiteLLM_JWTAuth kwargs =
     (let allowed_keys = map fst LiteLLM_JWTAuth_fields;
          invalid_keys = filter (\<lambda>k. k \<notin> set allowed_keys) (dict_keys kwargs)
      in if invalid_keys \<noteq> []
         then Inl (ValueError (''Invalid arguments provided: '' @ join '', '' invalid_keys
                     @ ''. Allowed arguments are: '' @ join '', '' allowed_keys @ ''.''))
         else construct Ignore LiteLLM_JWTAuth_fields no_validator kwargs)"

definition ProxyChatCompletionRequest_fields :: "field_decl list" where
  "ProxyChatCompletionRequest_fields =
     [(''model'', TStr, None),
      (''messages'', TListOf (TDictOf TStr), None),
      (''temperature'', TOptional TFloat, Some PNone),
      (''top_p'', TOptional TFloat, Some PNone),
      (''n'', TOptional TInt, Some PNone),
      (''stream'', TOptional TBool, Some PNone),
      (''stop'', TOptional (TListOf TStr), Some PNone),
      (''max_tokens'', TOptional TInt, Some PNone),
      (''presence_penalty'', TOptional TFloat, Some PNone),
      (''frequency_penalty'', TOptional TFloat, Some PNone),
      (''logit_bias'', TOptional (TDictOf TFloat), Some PNone),
      (''user'', TOptional TStr, Some PNone),
      (''response_format'', TOptional (TDictOf TStr), Some PNone),
      (''seed'', TOptional TInt, Some PNone),
      (''tools'', TOptional (TListOf TStr), Some PNone),
      (''tool_choice'', TOptional TStr, Some PNone),
      (''functions'', TOptional (TListOf TStr), Some PNone),
      (''function_call'', TOptional TStr, Some PNone),
      (''caching'', TOptional TBool, Some PNone),
      (''api_base'', TOptional TStr, Some PNone),
      (''api_version'', TOptional TStr, Some PNone),
      (''api_key'', TOptional TStr, Some PNone),
      (''num_retries'', TOptional TInt, Some PNone),
      (''context_window_fallback_dict'', TOptional (TDictOf TStr), Some PNone),
      (''fallbacks'', TOptional (TListOf TStr), Some PNone),
      (''metadata'', TOptional (TDictOf TStr), Some (PDict [])),
      (''deployment_id'', TOptional TStr, Some PNone),
      (''request_timeout'', TOptional TInt, Some PNone)]"

text \<open>\<^verbatim>\<open>class Config: extra = "allow"\<close>\<close>

definition ProxyChatCompletionRequest :: "pydict \<Rightarrow> error + pydict" where
  "ProxyChatCompletionRequest = construct Allow ProxyChatCompletionRequest_fields no_validator"

section \<open>User, end-user and team records\<close>

text \<open>
  A field annotated \<^verbatim>\<open>Optional[...]\<close> with no default (\<^verbatim>\<open>max_budget\<close> and \<^verbatim>\<open>user_email\<close> of
  the user table) is declared without a default here: it must be supplied, possibly as
  \<^verbatim>\<open>None\<close>.
\<close>

definition LiteLLM_UserTable_fields :: "field_decl list" where
  "LiteLLM_UserTable_fields =
     [(''user_id'', TStr, None),
      (''max_budget'', TOptional TFloat, None),
      (''spend'', TFloat, Some (PFloat 0)),
      (''model_max_budget'', TOptional TDict, Some (PDict [])),
      (''model_spend'', TOptional TDict, Some (PDict [])),
      (''user_email'', TOptional TStr, None),
      (''models'', TList, Some (PList [])),
      (''tpm_limit'', TOptional TInt, Some PNone),
      (''rpm_limit'', TOptional TInt, Some PNone)]"

definition LiteLLM_UserTable_set_model_info :: "pydict \<Rightarrow> error + pydict" where
  "LiteLLM_UserTable_set_model_info values =
     (let values1 = (if dict_get values ''spend'' = PNone
                     then dict_update ''spend'' (PFloat 0) values else values);
          values2 = (if dict_get values1 ''models'' = PNone
                     then dict_update ''models'' (PList []) values1 else values1)
      in Inr values2)"

definition LiteLLM_UserTable :: "pydict \<Rightarrow> error + pydict" where
  "LiteLLM_UserTable = construct Ignore LiteLLM_UserTable_fields LiteLLM_UserTable_set_model_info"

definition LiteLLM_BudgetTable_fields :: "field_decl list" where
  "LiteLLM_BudgetTable_fields =
     [(''soft_budget'', TOptional TFloat, Some PNone),
      (''max_budget'', TOptional TFloat, Some PNone),
      (''max_parallel_requests'', TOptional TInt, Some PNone),
      (''tpm_limit'', TOptional TInt, Some PNone),
      (''rpm_limit'', TOptional TInt, Some PNone),
      (''model_max_budget'', TOptional TDict, Some PNone),
      (''budget_duration'', TOptional TStr, Some PNone)]"

definition LiteLLM_BudgetTable :: "pydict \<Rightarrow> error + pydict" where
  "LiteLLM_BudgetTable = construct Ignore LiteLLM_BudgetTable_fields no_validator"

text \<open>A field whose annotation is a model class accepts what that class constructs.\<close>

definition as_model :: "(pydict \<Rightarrow> error + pydict) \<Rightarrow> pydict \<Rightarrow> pydict option" where
  "as_model cls d = (case cls d of Inl e \<Rightarrow> None | Inr obj \<Rightarrow> Some obj)"

definition LiteLLM_EndUserTable_fields :: "field_decl list" where
  "LiteLLM_EndUserTable_fields =
     [(''user_id'', TStr, None),
      (''blocked'', TBool, None),
      (''alias'', TOptional TStr, Some PNone),
      (''spend'', TFloat, Some (PFloat 0)),
      (''allowed_model_region'', TOptional (TLiteral [''eu'']), Some PNone),
      (''default_model'', TOptional TStr, Some PNone),
      (''litellm_budget_table'', TOptional (TModel (as_model LiteLLM_BudgetTable)), Some PNone)]"

definition LiteLLM_EndUserTable_set_model_info :: "pydict \<Rightarrow> error + pydict" where
  "LiteLLM_EndUserTable_set_model_info values =
     (if dict_get values ''spend'' = PNone
      then Inr (dict_update ''spend'' (PFloat 0) values) else Inr values)"

definition LiteLLM_EndUserTable :: "pydict \<Rightarrow> error + pydict" where
  "LiteLLM_EndUserTable =
     construct Ignore LiteLLM_EndUserTable_fields LiteLLM_EndUserTable_set_model_info"

definition TeamBase_fields :: "field_decl list" where
  "TeamBase_fields =
     [(''team_alias'', TOptional TStr, Some PNone),
      (''team_id'', TOptional TStr, Some PNone),
      (''organization_id'', TOptional TStr, Some PNone),
      (''admins'', TList, Some (PList [])),
      (''members'', TList, Some (PList [])),
      (''members_with_roles'', TListOf (TModel (as_model Member)), Some (PList [])),
      (''metadata'', TOptional TDict, Some PNone),
      (''tpm_limit'', TOptional TInt, Some PNone),
      (''rpm_limit'', TOptional TInt, Some PNone),
      (''max_budget'', TOptional TFloat, Some PNone),
      (''models'', TList, Some (PList [])),
      (''blocked'', TBool, Some (PBool False))]"

definition LiteLLM_TeamTable_fields :: "field_decl list" where
  "LiteLLM_TeamTable_fields =
     inherit TeamBase_fields
       [(''spend'', TOptional TFloat, Some PNone),
        (''max_parallel_requests'', TOptional TInt, Some PNone),
        (''budget_duration'', TOptional TStr, Some PNone),
        (''budget_reset_at'', TOptional TDatetime, Some PNone),
        (''model_id'', TOptional TInt, Some PNone)]"

section \<open>Decoding fields stored as text\<close>

text \<open>
  The loop of both \<^verbatim>\<open>set_model_info\<close> validators: a listed field whose value is a string
  is replaced by \<^verbatim>\<open>json.loads(value)\<close>; a \<^verbatim>\<open>JSONDecodeError\<close> becomes a \<^verbatim>\<open>ValueError\<close>
  that names the field. \<^verbatim>\<open>json.loads\<close> is the standard library's; it is the parameter
  \<open>json_loads\<close>, with \<open>None\<close> for \<^verbatim>\<open>JSONDecodeError\<close>.
\<close>

fun decode_dict_fields :: "(string \<Rightarrow> pyval option) \<Rightarrow> string list \<Rightarrow> pydict \<Rightarrow> error + pydict" where
  "decode_dict_fields json_loads [] values = Inr values"
| "decode_dict_fields json_loads (field # fields) values =
     (case dict_get values field of
        PStr s \<Rightarrow>
          (case json_loads s of
             None \<Rightarrow> Inl (ValueError (''Field '' @ field @ '' should be a valid dictionary''))
           | Some v \<Rightarrow> decode_dict_fields json_loads fields (dict_update field v values))
      | _ \<Rightarrow> decode_dict_fields json_loads fields values)"






definition LiteLLM_TeamTable_dict_fields :: "string list" where
  "LiteLLM_TeamTable_dict_fields =
     [''metadata'', ''aliases'', ''config'', ''permissions'', ''model_max_budget'', ''model_aliases'']"

definition LiteLLM_TeamTable_set_model_info ::
  "(string \<Rightarrow> pyval option) \<Rightarrow> pydict \<Rightarrow> error + pydict" where
  "LiteLLM_TeamTable_set_model_info json_loads values =
     decode_dict_fields json_loads LiteLLM_TeamTable_dict_fields values"

definition LiteLLM_TeamTable :: "(string \<Rightarrow> pyval option) \<Rightarrow> pydict \<Rightarrow> error + pydict" where
  "LiteLLM_TeamTable json_loads =
     construct Ignore LiteLLM_TeamTable_fields (LiteLLM_TeamTable_set_model_info json_loads)"

section \<open>Route groups\<close>

text \<open>The tables of \<^verbatim>\<open>LiteLLMRoutes\<close>.\<close>

definition openai_routes :: "string list" where
  "openai_routes =
     [''/openai/deployments/{model}/chat/completions'',
      ''/chat/completions'',
      ''/v1/chat/completions'',
      ''/openai/deployments/{model}/completions'',
      ''/completions'',
      ''/v1/completions'',
      ''/openai/deployments/{model}/embeddings'',
      ''/embeddings'',
      ''/v1/embeddings'',
      ''/images/generations'',
      ''/v1/images/generations'',
      ''/audio/transcriptions'',
      ''/v1/audio/transcriptions'',
      ''/moderations'',
      ''/v1/moderations'',
      ''/models'',
      ''/v1/models'']"

definition info_routes :: "string list" where
  "info_routes =
     [''/key/info'', ''/team/info'', ''/team/list'', ''/user/info'', ''/model/info'',
      ''/v2/model/info'', ''/v2/key/info'']"

definition master_key_only_routes :: "string list" where
  "master_key_only_routes = [''/global/spend/reset'']"

definition sso_only_routes :: "string list" where
  "sso_only_routes =
     [''/key/generate'', ''/key/update'', ''/key/delete'', ''/global/spend/logs'',
      ''/global/predict/spend/logs'']"

definition management_routes :: "string list" where
  "management_routes =
     [''/key/generate'', ''/key/update'', ''/key/delete'', ''/key/info'',
      ''/user/new'', ''/user/update'', ''/user/delete'', ''/user/info'',
      ''/team/new'', ''/team/update'', ''/team/delete'', ''/team/list'', ''/team/info'',
      ''/team/block'', ''/team/unblock'',
      ''/model/new'', ''/model/update'', ''/model/delete'', ''/model/info'']"

definition spend_tracking_routes :: "string list" where
  "spend_tracking_routes =
     [''/spend/keys'', ''/spend/users'', ''/spend/tags'', ''/spend/calculate'', ''/spend/logs'']"

definition global_spend_tracking_routes :: "string list" where
  "global_spend_tracking_routes =
     [''/global/spend/logs'', ''/global/spend'', ''/global/spend/keys'', ''/global/spend/teams'',
      ''/global/spend/end_users'', ''/global/spend/models'', ''/global/predict/spend/logs'']"

definition public_routes :: "string list" where
  "public_routes =
     [''/routes'', ''/'', ''/health/liveliness'', ''/health/readiness'', ''/test'',
      ''/config/yaml'', ''/metrics'']"

text \<open>The members of \<^verbatim>\<open>LiteLLMRoutes\<close> by name, as the allow-lists of the JWT profile name them.\<close>

definition route_group :: "string \<Rightarrow> string list" where
  "route_group name =
     (if name = ''openai_routes'' then openai_routes
      else if name = ''info_routes'' then info_routes
      else if name = ''master_key_only_routes'' then master_key_only_routes
      else if name = ''sso_only_routes'' then sso_only_routes
      else if name = ''management_routes'' then management_routes
      else if name = ''spend_tracking_routes'' then spend_tracking_routes
      else if name = ''global_spend_tracking_routes'' then global_spend_tracking_routes
      else if name = ''public_routes'' then public_routes
      else [])"

section \<open>The route-permission resolver\<close>

text \<open>
  Modelled from the spec: \<^verbatim>\<open>authorize_route\<close> and the matching of a path against a route
  group are not in this module (its docstring points to \<^verbatim>\<open>auth_checks.py\<close>); the
  definitions below follow section 4.4 of the specification. The route tables and the
  default allow-lists are the module's own.
\<close>

text \<open>The segments of a path, split at \<^verbatim>\<open>/\<close>.\<close>

fun split_path :: "string \<Rightarrow> string \<Rightarrow> string list" where
  "split_path seg [] = [rev seg]"
| "split_path seg (c # cs) =
     (if c = CHR ''/'' then rev seg # split_path [] cs else split_path (c # seg) cs)"

definition is_placeholder :: "string \<Rightarrow> bool" where
  "is_placeholder seg = (length seg \<ge> 2 \<and> hd seg = CHR ''{'' \<and> last seg = CHR ''}'')"

text \<open>A path matches a template when they agree segment by segment; a placeholder
  segment of the template matches any single segment.\<close>

definition matches_template :: "string \<Rightarrow> string \<Rightarrow> bool" where
  "matches_template template path =
     list_all2 (\<lambda>t p. is_placeholder t \<or> t = p) (split_path [] template) (split_path [] path)"

definition in_group :: "string \<Rightarrow> string list \<Rightarrow> bool" where
  "in_group path templates = list_ex (\<lambda>template. matches_template template path) templates"

datatype decision = Allowed | Denied string

text \<open>
  The principal after credential verification: the credential presented, whether it
  came from the SSO login flow, whether the admin scope is present, and the team-id claim.
\<close>

datatype principal =
  Principal (credential: string) (from_sso: bool) (admin_scope: bool)
    (team_id_claim: "string option")

text \<open>
  What the deployment configures: the master key and the allow-list of a plain
  authenticated caller, on which the specification is silent.
\<close>

datatype auth_settings =
  AuthSettings (master_key: "string option") (default_allowed_routes: "string list")

text \<open>The allow-list stored in a constructed \<^verbatim>\<open>LiteLLM_JWTAuth\<close> record.\<close>

definition allowed_routes_of :: "pydict \<Rightarrow> string \<Rightarrow> string list" where
  "allowed_routes_of jwt_auth field =
     (case dict_get jwt_auth field of
        PList names \<Rightarrow> concat (map (\<lambda>v. case v of PStr s \<Rightarrow> [s] | _ \<Rightarrow> []) names)
      | _ \<Rightarrow> [])"

definition authorize_route ::
  "auth_settings \<Rightarrow> pydict \<Rightarrow> principal \<Rightarrow> string \<Rightarrow> decision" where
  "authorize_route settings jwt_auth p requested_path =
     (if in_group requested_path public_routes then Allowed
      else if in_group requested_path master_key_only_routes then
        (if master_key settings = Some (credential p) then Allowed
         else Denied ''master_key_required'')
      else if in_group requested_path sso_only_routes \<and> \<not> from_sso p then Denied ''sso_required''
      else
        (let allowed =
               (if admin_scope p then allowed_routes_of jwt_auth ''admin_allowed_routes''
                else if team_id_claim p \<noteq> None then allowed_routes_of jwt_auth ''team_allowed_routes''
                else default_allowed_routes settings)
         in if list_ex (\<lambda>name. in_group requested_path (route_group name)) allowed
            then Allowed
            else Denied ''route_not_permitted''))"

section \<open>Rate-limit scoping\<close>

text \<open>
  Modelled from the spec: \<^verbatim>\<open>resolve_limits\<close> is not in this module; the definition follows
  section 4.3 of the specification. The limits of one scope are the fields \<^verbatim>\<open>rpm_limit\<close>,
  \<^verbatim>\<open>tpm_limit\<close> and \<^verbatim>\<open>max_parallel_requests\<close> that the key, user and team tables declare
  (the user table declares no \<^verbatim>\<open>max_parallel_requests\<close>: it is \<open>None\<close> for a user).
  \<open>None\<close> in the result is "no limit".
\<close>

datatype scope_limits =
  ScopeLimits (rpm_limit: "int option") (tpm_limit: "int option")
    (max_parallel_requests: "int option")

datatype EffectiveLimits =
  EffectiveLimits (rpm: "int option") (tpm: "int option") (max_parallel: "int option")

definition first_set :: "int option \<Rightarrow> int option \<Rightarrow> int option \<Rightarrow> int option" where
  "first_set key_value user_value team_value =
     (case key_value of
        Some v \<Rightarrow> Some v
      | None \<Rightarrow> (case user_value of Some v \<Rightarrow> Some v | None \<Rightarrow> team_value))"

definition resolve_limits :: "scope_limits \<Rightarrow> scope_limits \<Rightarrow> scope_limits \<Rightarrow> EffectiveLimits" where
  "resolve_limits key user team =
     EffectiveLimits
       (first_set (rpm_limit key) (rpm_limit user) (rpm_limit team))
       (first_set (tpm_limit key) (tpm_limit user) (tpm_limit team))
       (first_set (max_parallel_requests key) (max_parallel_requests user)
          (max_parallel_requests team))"

section \<open>A JSON codec for the parameters\<close>

text \<open>
  \<^verbatim>\<open>json.dumps\<close> and \<^verbatim>\<open>json.loads\<close> belong to the standard library and enter the validators
  as parameters. The codec below instantiates them on the fragment of JSON without
  fractional numbers and with strings of bytes: \<^verbatim>\<open>json_dumps\<close> writes as \<^verbatim>\<open>json.dumps\<close> does
  with its default separators, \<^verbatim>\<open>json_loads\<close> reads by recursive descent. The fuel of the
  reader is the length of the text, and every call consumes a character.
\<close>

definition hex_digit :: "nat \<Rightarrow> char" where
  "hex_digit n = ''0123456789abcdef'' ! (n mod 16)"

definition escape_char :: "char \<Rightarrow> string" where
  "escape_char c =
     (if c = CHR 0x22 then [CHR 0x5C, CHR 0x22]
      else if c = CHR 0x5C then [CHR 0x5C, CHR 0x5C]
      else if c = CHR 0x0A then [CHR 0x5C, CHR ''n'']
      else if c = CHR 0x0D then [CHR 0x5C, CHR ''r'']
      else if c = CHR 0x09 then [CHR 0x5C, CHR ''t'']
      else if c = CHR 0x08 then [CHR 0x5C, CHR ''b'']
      else if c = CHR 0x0C then [CHR 0x5C, CHR ''f'']
      else if (of_char c :: nat) < 32 \<or> (of_char c :: nat) \<ge> 127
        then [CHR 0x5C, CHR ''u'', CHR ''0'', CHR ''0'',
              hex_digit (of_char c div 16), hex_digit (of_char c)]
      else [c])"

definition quote :: "string \<Rightarrow> string" where
  "quote s = CHR 0x22 # concat (map escape_char s) @ [CHR 0x22]"

fun digits :: "nat \<Rightarrow> nat \<Rightarrow> string" where
  "digits 0 n = []"
| "digits (Suc fuel) n =
     (if n < 10 then [hex_digit n] else digits fuel (n div 10) @ [hex_digit (n mod 10)])"

definition show_int :: "int \<Rightarrow> string" where
  "show_int i = (if i < 0 then CHR ''-'' # digits (Suc (nat (- i))) (nat (- i))
                 else digits (Suc (nat i)) (nat i))"

fun json_dumps :: "pyval \<Rightarrow> string"
  and dumps_items :: "pyval list \<Rightarrow> string"
  and dumps_members :: "(string \<times> pyval) list \<Rightarrow> string"
  and dumps_member :: "string \<times> pyval \<Rightarrow> string" where
  "json_dumps PNone = ''null''"
| "json_dumps (PBool b) = (if b then ''true'' else ''false'')"
| "json_dumps (PInt i) = show_int i"
| "json_dumps (PFloat f) = ''NaN''"
| "json_dumps (PDatetime t) = ''NaN''"
| "json_dumps (PStr s) = quote s"
| "json_dumps (PList xs) = ''['' @ dumps_items xs @ '']''"
| "json_dumps (PDict d) = ''{'' @ dumps_members d @ ''}''"
| "dumps_items [] = []"
| "dumps_items [x] = json_dumps x"
| "dumps_items (x # y # xs) = json_dumps x @ '', '' @ dumps_items (y # xs)"
| "dumps_members [] = []"
| "dumps_members [m] = dumps_member m"
| "dumps_members (m # m' # ms) = dumps_member m @ '', '' @ dumps_members (m' # ms)"
| "dumps_member (k, v) = quote k @ '': '' @ json_dumps v"

definition is_ws :: "char \<Rightarrow> bool" where
  "is_ws c = (c = CHR '' '' \<or> c = CHR 0x0A \<or> c = CHR 0x0D \<or> c = CHR 0x09)"

definition skip_ws :: "string \<Rightarrow> string" where
  "skip_ws s = dropWhile is_ws s"

definition is_digit :: "char \<Rightarrow> bool" where
  "is_digit c = (48 \<le> (of_char c :: nat) \<and> (of_char c :: nat) \<le> 57)"

definition digit_val :: "char \<Rightarrow> nat option" where
  "digit_val c =
     (let n = (of_char c :: nat)
      in if 48 \<le> n \<and> n \<le> 57 then Some (n - 48)
         else if 97 \<le> n \<and> n \<le> 102 then Some (n - 87)
         else if 65 \<le> n \<and> n \<le> 70 then Some (n - 55)
         else None)"

text \<open>The body of a string literal, after its opening quote.\<close>

fun parse_string :: "string \<Rightarrow> string \<Rightarrow> (string \<times> string) option" where
  "parse_string acc [] = None"
| "parse_string acc (c # cs) =
     (if c = CHR 0x22 then Some (rev acc, cs)
      else if c = CHR 0x5C then
        (case cs of
           [] \<Rightarrow> None
         | e # rest \<Rightarrow>
             if e = CHR 0x22 \<or> e = CHR 0x5C \<or> e = CHR ''/'' then parse_string (e # acc) rest
             else if e = CHR ''n'' then parse_string (CHR 0x0A # acc) rest
             else if e = CHR ''r'' then parse_string (CHR 0x0D # acc) rest
             else if e = CHR ''t'' then parse_string (CHR 0x09 # acc) rest
             else if e = CHR ''b'' then parse_string (CHR 0x08 # acc) rest
             else if e = CHR ''f'' then parse_string (CHR 0x0C # acc) rest
             else if e = CHR ''u'' then
               (case rest of
                  a # b # x # y # rest' \<Rightarrow>
                    (case (digit_val a, digit_val b, digit_val x, digit_val y) of
                       (Some 0, Some 0, Some h, Some l) \<Rightarrow>
                         parse_string (char_of (16 * h + l) # acc) rest'
                     | _ \<Rightarrow> None)
                | _ \<Rightarrow> None)
             else None)
      else if (of_char c :: nat) < 32 then None
      else parse_string (c # acc) cs)"

fun parse_digits :: "nat \<Rightarrow> string \<Rightarrow> nat \<times> string" where
  "parse_digits acc [] = (acc, [])"
| "parse_digits acc (c # cs) =
     (if is_digit c then parse_digits (10 * acc + (of_char c - 48)) cs
      else (acc, c # cs))"

definition parse_nat :: "string \<Rightarrow> (nat \<times> string) option" where
  "parse_nat s =
     (case s of
        [] \<Rightarrow> None
      | c # cs \<Rightarrow>
          if c = CHR ''0'' then
            (case cs of
               [] \<Rightarrow> Some (0, [])
             | d # ds \<Rightarrow> if is_digit d then None else Some (0, cs))
          else if is_digit c then Some (parse_digits 0 s)
          else None)"

text \<open>A number with a fraction or an exponent is outside the fragment.\<close>

definition parse_int :: "string \<Rightarrow> (int \<times> string) option" where
  "parse_int s =
     (case (case s of
              c # cs \<Rightarrow> if c = CHR ''-'' then map_option (\<lambda>(n, r). (- int n, r)) (parse_nat cs)
                       else map_option (\<lambda>(n, r). (int n, r)) (parse_nat s)
            | [] \<Rightarrow> None) of
        None \<Rightarrow> None
      | Some (i, r) \<Rightarrow>
          (case r of
             c # cs \<Rightarrow> if c = CHR ''.'' \<or> c = CHR ''e'' \<or> c = CHR ''E'' then None else Some (i, r)
           | [] \<Rightarrow> Some (i, r)))"

fun parse_value :: "nat \<Rightarrow> string \<Rightarrow> (pyval \<times> string) option"
  and parse_items :: "nat \<Rightarrow> string \<Rightarrow> (pyval list \<times> string) option"
  and parse_members :: "nat \<Rightarrow> string \<Rightarrow> ((string \<times> pyval) list \<times> string) option" where
  "parse_value 0 s = None"
| "parse_value (Suc fuel) s =
     (case skip_ws s of
        [] \<Rightarrow> None
      | c # cs \<Rightarrow>
          if c = CHR 0x22 then map_option (\<lambda>(x, r). (PStr x, r)) (parse_string [] cs)
          else if c = CHR ''['' then
            (case skip_ws cs of
               [] \<Rightarrow> None
             | d # ds \<Rightarrow>
                 if d = CHR '']'' then Some (PList [], ds)
                 else map_option (\<lambda>(xs, r). (PList xs, r)) (parse_items fuel cs))
          else if c = CHR ''{'' then
            (case skip_ws cs of
               [] \<Rightarrow> None
             | d # ds \<Rightarrow>
                 if d = CHR ''}'' then Some (PDict [], ds)
                 else map_option (\<lambda>(ms, r). (PDict (fold (\<lambda>(k, v). dict_update k v) ms []), r))
                        (parse_members fuel cs))
          else if take 4 (c # cs) = ''null'' then Some (PNone, drop 4 (c # cs))
          else if take 4 (c # cs) = ''true'' then Some (PBool True, drop 4 (c # cs))
          else if take 5 (c # cs) = ''false'' then Some (PBool False, drop 5 (c # cs))
          else map_option (\<lambda>(i, r). (PInt i, r)) (parse_int (c # cs)))"
| "parse_items 0 s = None"
| "parse_items (Suc fuel) s =
     (case parse_value fuel s of
        None \<Rightarrow> None
      | Some (x, r) \<Rightarrow>
          (case skip_ws r of
             [] \<Rightarrow> None
           | c # cs \<Rightarrow>
               if c = CHR '']'' then Some ([x], cs)
               else if c = CHR '','' then map_option (\<lambda>(xs, r'). (x # xs, r')) (parse_items fuel cs)
               else None))"
| "parse_members 0 s = None"
| "parse_members (Suc fuel) s =
     (case skip_ws s of
        [] \<Rightarrow> None
      | q # qs \<Rightarrow>
          if q \<noteq> CHR 0x22 then None
          else
            (case parse_string [] qs of
               None \<Rightarrow> None
             | Some (k, r) \<Rightarrow>
                 (case skip_ws r of
                    [] \<Rightarrow> None
                  | c # cs \<Rightarrow>
                      if c \<noteq> CHR '':'' then None
                      else
                        (case parse_value fuel cs of
                           None \<Rightarrow> None
                         | Some (v, r') \<Rightarrow>
                             (case skip_ws r' of
                                [] \<Rightarrow> None
                              | e # es \<Rightarrow>
                                  if e = CHR ''}'' then Some ([(k, v)], es)
                                  else if e = CHR '','' then
                                    map_option (\<lambda>(ms, r''). ((k, v) # ms, r'')) (parse_members fuel es)
                                  else None)))))"

definition json_loads :: "string \<Rightarrow> pyval option" where
  "json_loads s =
     (case parse_value (Suc (length s)) s of
        None \<Rightarrow> None
      | Some (v, r) \<Rightarrow> if skip_ws r = [] then Some v else None)"



section \<open>Properties of construction\<close>

lemma validate_fields_Inr_iff:
  "(\<exists>obj. validate_fields fields values = Inr obj) \<longleftrightarrow> fields_ok fields values"
proof (induction fields)
  case Nil
  show ?case by (simp add: fields_ok_def)
next
  case (Cons f fields)
  obtain name t dflt where f: "f = (name, t, dflt)" by (cases f)
  have tail: "fields_ok (f # fields) values \<longleftrightarrow>
      (case map_of values name of None \<Rightarrow> dflt \<noteq> None | Some v \<Rightarrow> coerce t v \<noteq> None)
      \<and> fields_ok fields values"
    by (simp add: fields_ok_def f)
  show ?case
    unfolding tail using Cons.IH
    by (auto simp: f split: option.splits sum.splits)
qed

lemma validate_fields_error_loc:
  "validate_fields fields values = Inl e \<Longrightarrow>
     \<exists>name msg. name \<in> set (map fst fields) \<and> e = ValidationError name msg"
proof (induction fields)
  case Nil
  then show ?case by simp
next
  case (Cons f fields)
  obtain name t dflt where f: "f = (name, t, dflt)" by (cases f)
  from Cons show ?case
    by (auto simp: f split: option.splits sum.splits)
qed

lemma validate_fields_keys:
  "validate_fields fields values = Inr obj \<Longrightarrow> map fst obj = map fst fields"
proof (induction fields arbitrary: obj)
  case Nil
  then show ?case by simp
next
  case (Cons f fields)
  obtain name t dflt where f: "f = (name, t, dflt)" by (cases f)
  from Cons.prems Cons.IH show ?case
    by (auto simp: f split: option.splits sum.splits)
qed

lemma construct_Inr_iff:
  assumes "ex \<noteq> Forbid"
  shows "(\<exists>obj. construct ex fields pre kwargs = Inr obj) \<longleftrightarrow>
         (\<exists>values. pre kwargs = Inr values \<and> fields_ok fields values)"
proof -
  have vm: "(\<exists>obj. validate_model ex fields vals = Inr obj) \<longleftrightarrow> fields_ok fields vals"
    for vals
    using assms validate_fields_Inr_iff [of fields vals]

    by (cases ex; cases "validate_fields fields vals") (auto simp: validate_model_def)
  show ?thesis
  proof (cases "pre kwargs")
    case (Inl e)
    then show ?thesis by (cases e) (simp_all add: construct_def)
  next
    case (Inr vals)
    then show ?thesis using vm [of vals] by (simp add: construct_def)
  qed
qed

lemma construct_root_error_iff:
  assumes "''__root__'' \<notin> set (map fst fields)"
  shows "construct ex fields pre kwargs = Inl (ValidationError ''__root__'' msg) \<longleftrightarrow>
         pre kwargs = Inl (ValueError msg) \<or> pre kwargs = Inl (ValidationError ''__root__'' msg)
         \<or> (\<exists>values. pre kwargs = Inr values
               \<and> validate_model ex fields values = Inl (ValidationError ''__root__'' msg))"
proof (cases "pre kwargs")
  case (Inl e)
  then show ?thesis by (cases e) (auto simp: construct_def)
next
  case (Inr vals)
  then show ?thesis by (simp add: construct_def)
qed


lemma validate_fields_lookup:
  "validate_fields fields values = Inr obj \<Longrightarrow> map_of fields n = Some (t, dflt) \<Longrightarrow>
     map_of obj n = (case map_of values n of None \<Rightarrow> dflt | Some v \<Rightarrow> coerce t v)"
proof (induction fields arbitrary: obj)
  case Nil
  then show ?case by simp
next
  case (Cons f fields)
  obtain name t' dflt' where f: "f = (name, t', dflt')" by (cases f)
  from Cons.prems Cons.IH show ?case
    by (auto simp: f split: option.splits sum.splits if_splits)
qed

lemma construct_Ignore_root_error_iff:
  assumes "''__root__'' \<notin> set (map fst fields)"
    and "\<And>loc m. pre kwargs \<noteq> Inl (ValidationError loc m)"
  shows "construct Ignore fields pre kwargs = Inl (ValidationError ''__root__'' msg) \<longleftrightarrow>
         pre kwargs = Inl (ValueError msg)"
proof (cases "pre kwargs")
  case (Inl e)
  then show ?thesis using assms(2) by (cases e) (auto simp: construct_def)
next
  case (Inr vals)
  have "validate_fields fields vals \<noteq> Inl (ValidationError ''__root__'' msg)"
    using validate_fields_error_loc [of fields vals] assms(1) by fastforce
  then show ?thesis using Inr
    by (auto simp: construct_def validate_model_def split: sum.splits)
qed

section \<open>Claims on cross-field rules\<close>





text \<open>
  C6. For a team \<^verbatim>\<open>Member\<close>, an \<^verbatim>\<open>UpdateUserRequest\<close> and a \<^verbatim>\<open>TeamMemberDeleteRequest\<close>,
  construction fails with the validation error of the user-info rule exactly when neither
  \<^verbatim>\<open>user_id\<close> nor \<^verbatim>\<open>user_email\<close> is supplied.
\<close>

theorem check_user_info_fires_iff_both_absent:
  "(Member kwargs = Inl (ValidationError ''__root__'' ''Either user id or user email must be provided'')
      \<longleftrightarrow> dict_get kwargs ''user_id'' = PNone \<and> dict_get kwargs ''user_email'' = PNone)
   \<and> (UpdateUserRequest kwargs =
        Inl (ValidationError ''__root__'' ''Either user id or user email must be provided'')
      \<longleftrightarrow> dict_get kwargs ''user_id'' = PNone \<and> dict_get kwargs ''user_email'' = PNone)
   \<and> (TeamMemberDeleteRequest kwargs =
        Inl (ValidationError ''__root__'' ''Either user id or user email must be provided'')
      \<longleftrightarrow> dict_get kwargs ''user_id'' = PNone \<and> dict_get kwargs ''user_email'' = PNone)"
proof (intro conjI)
  show "Member kwargs = Inl (ValidationError ''__root__'' ''Either user id or user email must be provided'')
      \<longleftrightarrow> dict_get kwargs ''user_id'' = PNone \<and> dict_get kwargs ''user_email'' = PNone"
    unfolding Member_def
    by (subst construct_Ignore_root_error_iff)
       (auto simp: Member_fields_def Member_check_user_info_def)
  show "UpdateUserRequest kwargs =
        Inl (ValidationError ''__root__'' ''Either user id or user email must be provided'')
      \<longleftrightarrow> dict_get kwargs ''user_id'' = PNone \<and> dict_get kwargs ''user_email'' = PNone"
    unfolding UpdateUserRequest_def
    by (subst construct_Ignore_root_error_iff)
       (auto simp: UpdateUserRequest_fields_def GenerateRequestBase_fields_def inherit_def
          UpdateUserRequest_check_user_info_def)
  show "TeamMemberDeleteRequest kwargs =
        Inl (ValidationError ''__root__'' ''Either user id or user email must be provided'')
      \<longleftrightarrow> dict_get kwargs ''user_id'' = PNone \<and> dict_get kwargs ''user_email'' = PNone"
    unfolding TeamMemberDeleteRequest_def
    by (subst construct_Ignore_root_error_iff)
       (auto simp: TeamMemberDeleteRequest_fields_def TeamMemberDeleteRequest_check_user_info_def)
qed

theorem check_user_info_fires_iff_both_absent_witness:
  "Member [(''role'', PStr ''admin'')] =
     Inl (ValidationError ''__root__'' ''Either user id or user email must be provided'')
   \<and> Member [(''role'', PStr ''admin''), (''user_email'', PStr ''a@b.c'')] \<noteq>
     Inl (ValidationError ''__root__'' ''Either user id or user email must be provided'')
   \<and> UpdateUserRequest [(''max_budget'', PFloat 5)] =
     Inl (ValidationError ''__root__'' ''Either user id or user email must be provided'')
   \<and> TeamMemberDeleteRequest [(''team_id'', PStr ''t1'')] =
     Inl (ValidationError ''__root__'' ''Either user id or user email must be provided'')"
  using
    check_user_info_fires_iff_both_absent [of "[(''role'', PStr ''admin'')]"]
    check_user_info_fires_iff_both_absent
      [of "[(''role'', PStr ''admin''), (''user_email'', PStr ''a@b.c'')]"]
    check_user_info_fires_iff_both_absent [of "[(''max_budget'', PFloat 5)]"]
    check_user_info_fires_iff_both_absent [of "[(''team_id'', PStr ''t1'')]"]
  by (simp add: dict_get_def)

section \<open>Claims on the key-authentication record\<close>

lemma map_of_dict_update: "map_of (dict_update k v d) = (map_of d)(k \<mapsto> v)"
  by (induction d) (auto simp: fun_eq_iff)

lemma dict_get_dict_update:
  "dict_get (dict_update k v d) k' = (if k' = k then v else dict_get d k')"
  by (simp add: dict_get_def map_of_dict_update)

lemma construct_Ignore_Inr:
  "construct Ignore fields pre kwargs = Inr obj \<Longrightarrow>
     \<exists>vals. pre kwargs = Inr vals \<and> validate_fields fields vals = Inr obj"
  by (auto simp: construct_def validate_model_def split: sum.splits error.splits)






section \<open>Claims on the closed and open schemas\<close>

lemma validate_fields_append_extra:
  "k \<notin> set (map fst fields) \<Longrightarrow>
     validate_fields fields (vals @ [(k, v)]) = validate_fields fields vals"
proof (induction fields)
  case Nil
  then show ?case by simp
next
  case (Cons f fields)
  obtain name t dflt where f: "f = (name, t, dflt)" by (cases f)
  from Cons.prems have ne: "name \<noteq> k" and rest: "k \<notin> set (map fst fields)"
    by (auto simp: f)
  have m: "map_of (vals @ [(k, v)]) name = map_of vals name"
    using ne by (simp add: map_add_def split: option.splits)
  show ?case
    by (simp only: f validate_fields.simps m Cons.IH [OF rest])
qed

lemma extra_items_append:
  "k \<notin> set (map fst fields) \<Longrightarrow>
     extra_items fields (vals @ [(k, v)]) = extra_items fields vals @ [(k, v)]"
  by (simp add: extra_items_def)

text \<open>
  C7. Constructing a \<^verbatim>\<open>LiteLLM_JWTAuth\<close> with a keyword outside its declared fields fails
  with a \<^verbatim>\<open>ValueError\<close>, whatever the other arguments are. A \<^verbatim>\<open>ProxyChatCompletionRequest\<close>
  that is constructed from some arguments is also constructed when one more keyword, not
  a declared field, is passed, and the record then carries that keyword and its value.
\<close>

theorem JWTAuth_closed_schema_request_open:
  "((\<exists>k \<in> set (dict_keys kwargs). k \<notin> set (map fst LiteLLM_JWTAuth_fields)) \<longrightarrow>
      (\<exists>msg. LiteLLM_JWTAuth kwargs = Inl (ValueError msg)))
   \<and> (ProxyChatCompletionRequest kwargs = Inr obj
        \<and> k \<notin> set (map fst ProxyChatCompletionRequest_fields) \<and> k \<notin> set (dict_keys kwargs) \<longrightarrow>
      ProxyChatCompletionRequest (kwargs @ [(k, v)]) = Inr (obj @ [(k, v)]))"
proof (intro conjI impI)
  assume "\<exists>k \<in> set (dict_keys kwargs). k \<notin> set (map fst LiteLLM_JWTAuth_fields)"
  then have "filter (\<lambda>k. k \<notin> set (map fst LiteLLM_JWTAuth_fields)) (dict_keys kwargs) \<noteq> []"
    by (auto simp: filter_empty_conv)
  then show "\<exists>msg. LiteLLM_JWTAuth kwargs = Inl (ValueError msg)"
    by (simp add: LiteLLM_JWTAuth_def Let_def)
next
  assume h: "ProxyChatCompletionRequest kwargs = Inr obj
        \<and> k \<notin> set (map fst ProxyChatCompletionRequest_fields) \<and> k \<notin> set (dict_keys kwargs)"
  then have k: "k \<notin> set (map fst ProxyChatCompletionRequest_fields)" by simp
  from h obtain core where core: "validate_fields ProxyChatCompletionRequest_fields kwargs = Inr core"
    and obj: "obj = core @ extra_items ProxyChatCompletionRequest_fields kwargs"
    by (auto simp: ProxyChatCompletionRequest_def construct_def no_validator_def validate_model_def
        split: sum.splits)
  show "ProxyChatCompletionRequest (kwargs @ [(k, v)]) = Inr (obj @ [(k, v)])"
    using core obj validate_fields_append_extra [OF k, of kwargs v] extra_items_append [OF k, of kwargs v]
    by (simp add: ProxyChatCompletionRequest_def construct_def no_validator_def validate_model_def)
qed

theorem JWTAuth_closed_schema_request_open_witness:
  "(\<exists>msg. LiteLLM_JWTAuth [(''team_id_jwt_field'', PStr ''client_id''), (''team_scope'', PStr ''t'')]
       = Inl (ValueError msg))
   \<and> (\<exists>obj. ProxyChatCompletionRequest
               [(''model'', PStr ''gpt-4''), (''messages'', PList [PDict [(''role'', PStr ''user'')]])]
             = Inr obj
          \<and> ProxyChatCompletionRequest
               ([(''model'', PStr ''gpt-4''), (''messages'', PList [PDict [(''role'', PStr ''user'')]])]
                @ [(''mock_response'', PStr ''hi'')])
             = Inr (obj @ [(''mock_response'', PStr ''hi'')]))"
proof -
  let ?jw = "[(''team_id_jwt_field'', PStr ''client_id''), (''team_scope'', PStr ''t'')]"
  let ?kw = "[(''model'', PStr ''gpt-4''), (''messages'', PList [PDict [(''role'', PStr ''user'')]])]"
  have j: "\<exists>msg. LiteLLM_JWTAuth ?jw = Inl (ValueError msg)"
    using JWTAuth_closed_schema_request_open [of ?jw]
    by (simp add: dict_keys_def LiteLLM_JWTAuth_fields_def)
  have "fields_ok ProxyChatCompletionRequest_fields ?kw"
    by (simp add: fields_ok_def ProxyChatCompletionRequest_fields_def)
  then obtain obj where obj: "ProxyChatCompletionRequest ?kw = Inr obj"
    unfolding ProxyChatCompletionRequest_def
    using construct_Inr_iff [of Allow ProxyChatCompletionRequest_fields no_validator ?kw]
    by (auto simp: no_validator_def)
  have "ProxyChatCompletionRequest (?kw @ [(''mock_response'', PStr ''hi'')])
      = Inr (obj @ [(''mock_response'', PStr ''hi'')])"
    using JWTAuth_closed_schema_request_open [of ?kw obj "''mock_response''" "PStr ''hi''"] obj
    by (simp add: dict_keys_def ProxyChatCompletionRequest_fields_def)
  with j obj show ?thesis by blast
qed

section \<open>Claims on defaults\<close>

lemma default_when_absent:
  assumes "validate_fields fields vals = Inr obj"
    and "map_of fields n = Some (t, Some d)"
    and "map_of vals n = None"
  shows "map_of obj n = Some d"
  using validate_fields_lookup [OF assms(1) assms(2)] assms(3) by simp

lemma value_when_present:
  assumes "validate_fields fields vals = Inr obj"
    and "map_of fields n = Some (t, dflt)"
    and "map_of vals n = Some v"
  shows "map_of obj n = coerce t v"
  using validate_fields_lookup [OF assms(1) assms(2)] assms(3) by simp

lemma decode_dict_fields_absent:
  "decode_dict_fields loads fs vals = Inr vals' \<Longrightarrow> map_of vals n = None \<Longrightarrow>
     map_of vals' n = None"
proof (induction fs arbitrary: vals)
  case Nil
  then show ?case by simp
next
  case (Cons f fs)
  show ?case
  proof (cases "dict_get vals f")
    case (PStr s)
    with Cons.prems(1) obtain v where v: "loads s = Some v"
      and rest: "decode_dict_fields loads fs (dict_update f v vals) = Inr vals'"
      by (auto split: option.splits)
    from PStr Cons.prems(2) have "n \<noteq> f"
      by (auto simp: dict_get_def)
    then have "map_of (dict_update f v vals) n = None"
      using Cons.prems(2) by (simp add: map_of_dict_update)
    from Cons.IH [OF rest this] show ?thesis .
  qed (use Cons in auto)
qed

lemma Key_defaults:
  assumes "LiteLLM_VerificationToken kwargs = Inr obj"
    and "map_of LiteLLM_VerificationToken_fields n = Some (t, Some d)"
    and "map_of kwargs n = None"
  shows "map_of obj n = Some d"
proof -
  from assms(1) have "validate_fields LiteLLM_VerificationToken_fields kwargs = Inr obj"
    unfolding LiteLLM_VerificationToken_def
    using construct_Ignore_Inr [of LiteLLM_VerificationToken_fields no_validator kwargs obj]
    by (simp add: no_validator_def)
  from default_when_absent [OF this assms(2) assms(3)] show ?thesis .
qed

lemma User_spend_default:
  assumes "LiteLLM_UserTable kwargs = Inr obj" and "dict_get kwargs ''spend'' = PNone"
  shows "map_of obj ''spend'' = Some (PFloat 0)"
proof -
  from assms(1) obtain vals where pre: "LiteLLM_UserTable_set_model_info kwargs = Inr vals"
    and obj: "validate_fields LiteLLM_UserTable_fields vals = Inr obj"
    unfolding LiteLLM_UserTable_def using construct_Ignore_Inr by blast
  from pre assms(2) have "map_of vals ''spend'' = Some (PFloat 0)"
    by (auto simp: LiteLLM_UserTable_set_model_info_def Let_def map_of_dict_update)
  from value_when_present [OF obj _ this, of TFloat "Some (PFloat 0)"] show ?thesis
    by (simp add: LiteLLM_UserTable_fields_def)
qed

lemma User_models_default:
  assumes "LiteLLM_UserTable kwargs = Inr obj" and "dict_get kwargs ''models'' = PNone"
  shows "map_of obj ''models'' = Some (PList [])"
proof -
  from assms(1) obtain vals where pre: "LiteLLM_UserTable_set_model_info kwargs = Inr vals"
    and obj: "validate_fields LiteLLM_UserTable_fields vals = Inr obj"
    unfolding LiteLLM_UserTable_def using construct_Ignore_Inr by blast
  from pre assms(2) have "map_of vals ''models'' = Some (PList [])"
    by (auto simp: LiteLLM_UserTable_set_model_info_def Let_def map_of_dict_update
        dict_get_dict_update split: if_splits)
  from value_when_present [OF obj _ this, of TList "Some (PList [])"] show ?thesis
    by (simp add: LiteLLM_UserTable_fields_def)
qed

lemma User_dict_defaults:
  assumes "LiteLLM_UserTable kwargs = Inr obj"
    and "n = ''model_max_budget'' \<or> n = ''model_spend''"
    and "map_of kwargs n = None"
  shows "map_of obj n = Some (PDict [])"
proof -
  from assms(1) obtain vals where pre: "LiteLLM_UserTable_set_model_info kwargs = Inr vals"
    and obj: "validate_fields LiteLLM_UserTable_fields vals = Inr obj"
    unfolding LiteLLM_UserTable_def using construct_Ignore_Inr by blast
  from pre assms(2,3) have "map_of vals n = None"
    by (auto simp: LiteLLM_UserTable_set_model_info_def Let_def map_of_dict_update)
  from default_when_absent [OF obj _ this, of "TOptional TDict" "PDict []"] assms(2) show ?thesis
    by (auto simp: LiteLLM_UserTable_fields_def)
qed

lemma EndUser_spend_default:
  assumes "LiteLLM_EndUserTable kwargs = Inr obj" and "dict_get kwargs ''spend'' = PNone"
  shows "map_of obj ''spend'' = Some (PFloat 0)"
proof -
  from assms(1) obtain vals where pre: "LiteLLM_EndUserTable_set_model_info kwargs = Inr vals"
    and obj: "validate_fields LiteLLM_EndUserTable_fields vals = Inr obj"
    unfolding LiteLLM_EndUserTable_def using construct_Ignore_Inr by blast
  from pre assms(2) have "map_of vals ''spend'' = Some (PFloat 0)"
    by (auto simp: LiteLLM_EndUserTable_set_model_info_def map_of_dict_update)
  from value_when_present [OF obj _ this, of TFloat "Some (PFloat 0)"] show ?thesis
    by (simp add: LiteLLM_EndUserTable_fields_def)
qed

lemma Team_defaults:
  assumes "LiteLLM_TeamTable loads kwargs = Inr obj"
    and "map_of LiteLLM_TeamTable_fields n = Some (t, Some d)"
    and "map_of kwargs n = None"
  shows "map_of obj n = Some d"
proof -
  from assms(1) obtain vals where pre: "LiteLLM_TeamTable_set_model_info loads kwargs = Inr vals"
    and obj: "validate_fields LiteLLM_TeamTable_fields vals = Inr obj"
    unfolding LiteLLM_TeamTable_def using construct_Ignore_Inr by blast
  from pre assms(3) have "map_of vals n = None"
    unfolding LiteLLM_TeamTable_set_model_info_def by (rule decode_dict_fields_absent)
  from default_when_absent [OF obj assms(2) this] show ?thesis .
qed

lemma Key_fields_dict:
  "n \<in> {''aliases'', ''config'', ''metadata'', ''permissions'', ''model_spend'', ''model_max_budget''}
     \<Longrightarrow> map_of LiteLLM_VerificationToken_fields n = Some (TDict, Some (PDict []))"
  by (elim insertE emptyE) (simp_all add: LiteLLM_VerificationToken_fields_def)

lemma Key_fields_list:
  "n \<in> {''models'', ''allowed_cache_controls''}
     \<Longrightarrow> \<exists>t. map_of LiteLLM_VerificationToken_fields n = Some (t, Some (PList []))"
  by (elim insertE emptyE) (simp_all add: LiteLLM_VerificationToken_fields_def)

lemma Key_fields_none:
  "n \<in> {''litellm_budget_table'', ''user_id_rate_limits'', ''team_id_rate_limits''}
     \<Longrightarrow> map_of LiteLLM_VerificationToken_fields n = Some (TOptional TDict, Some PNone)"
  by (elim insertE emptyE) (simp_all add: LiteLLM_VerificationToken_fields_def)

lemma Key_fields_spend:
  "map_of LiteLLM_VerificationToken_fields ''spend'' = Some (TFloat, Some (PFloat 0))"
  by (simp add: LiteLLM_VerificationToken_fields_def)

lemma Team_fields_list:
  "n \<in> {''admins'', ''members'', ''members_with_roles'', ''models''} \<Longrightarrow>
     \<exists>t. map_of LiteLLM_TeamTable_fields n = Some (t, Some (PList []))"
  by (elim insertE emptyE)
     (simp_all add: LiteLLM_TeamTable_fields_def TeamBase_fields_def inherit_def)

lemma Team_fields_none:
  "n \<in> {''spend'', ''metadata''} \<Longrightarrow>
     \<exists>t. map_of LiteLLM_TeamTable_fields n = Some (t, Some PNone)"
  by (elim insertE emptyE)
     (simp_all add: LiteLLM_TeamTable_fields_def TeamBase_fields_def inherit_def)

text \<open>
  C9, as the code has it. In a constructed Key (\<^verbatim>\<open>LiteLLM_VerificationToken\<close>), User
  (\<^verbatim>\<open>LiteLLM_UserTable\<close>) or End-User (\<^verbatim>\<open>LiteLLM_EndUserTable\<close>) record, \<^verbatim>\<open>spend\<close> is 0.0
  when it was not supplied. A list or mapping field that is declared with an empty
  container as its default carries the empty container when it was not supplied: these
  are \<^verbatim>\<open>models\<close>, \<^verbatim>\<open>allowed_cache_controls\<close>, \<^verbatim>\<open>aliases\<close>, \<^verbatim>\<open>config\<close>, \<^verbatim>\<open>metadata\<close>,
  \<^verbatim>\<open>permissions\<close>, \<^verbatim>\<open>model_spend\<close> and \<^verbatim>\<open>model_max_budget\<close> of a Key, \<^verbatim>\<open>models\<close>,
  \<^verbatim>\<open>model_max_budget\<close> and \<^verbatim>\<open>model_spend\<close> of a User, and \<^verbatim>\<open>admins\<close>, \<^verbatim>\<open>members\<close>,
  \<^verbatim>\<open>members_with_roles\<close> and \<^verbatim>\<open>models\<close> of a Team (\<^verbatim>\<open>LiteLLM_TeamTable\<close>). The fields
  declared \<^verbatim>\<open>Optional\<close> with default \<^verbatim>\<open>None\<close> stay \<^verbatim>\<open>None\<close>: \<^verbatim>\<open>spend\<close> and \<^verbatim>\<open>metadata\<close> of a
  Team, and \<^verbatim>\<open>litellm_budget_table\<close>, \<^verbatim>\<open>user_id_rate_limits\<close> and \<^verbatim>\<open>team_id_rate_limits\<close> of a
  Key.
\<close>

theorem record_defaults:
  "(LiteLLM_VerificationToken kwargs = Inr obj \<and> map_of kwargs n = None \<longrightarrow>
      (n = ''spend'' \<longrightarrow> map_of obj n = Some (PFloat 0))
    \<and> (n \<in> {''models'', ''allowed_cache_controls''} \<longrightarrow> map_of obj n = Some (PList []))
    \<and> (n \<in> {''aliases'', ''config'', ''metadata'', ''permissions'', ''model_spend'',
              ''model_max_budget''} \<longrightarrow> map_of obj n = Some (PDict []))
    \<and> (n \<in> {''litellm_budget_table'', ''user_id_rate_limits'', ''team_id_rate_limits''} \<longrightarrow>
          map_of obj n = Some PNone))
   \<and> (LiteLLM_UserTable kwargs = Inr obj \<longrightarrow>
      (dict_get kwargs ''spend'' = PNone \<longrightarrow> map_of obj ''spend'' = Some (PFloat 0))
    \<and> (dict_get kwargs ''models'' = PNone \<longrightarrow> map_of obj ''models'' = Some (PList []))
    \<and> (map_of kwargs ''model_max_budget'' = None \<longrightarrow> map_of obj ''model_max_budget'' = Some (PDict []))
    \<and> (map_of kwargs ''model_spend'' = None \<longrightarrow> map_of obj ''model_spend'' = Some (PDict [])))
   \<and> (LiteLLM_EndUserTable kwargs = Inr obj \<and> dict_get kwargs ''spend'' = PNone \<longrightarrow>
      map_of obj ''spend'' = Some (PFloat 0))
   \<and> (LiteLLM_TeamTable loads kwargs = Inr obj \<and> map_of kwargs n = None \<longrightarrow>
      (n \<in> {''admins'', ''members'', ''members_with_roles'', ''models''} \<longrightarrow>
          map_of obj n = Some (PList []))
    \<and> (n \<in> {''spend'', ''metadata''} \<longrightarrow> map_of obj n = Some PNone))"
proof (intro conjI impI)
  assume h: "LiteLLM_VerificationToken kwargs = Inr obj \<and> map_of kwargs n = None"
  note d = Key_defaults [OF conjunct1 [OF h] _ conjunct2 [OF h]]
  show "map_of obj n = Some (PFloat 0)" if "n = ''spend''"
    using d [of TFloat "PFloat 0"] Key_fields_spend that by simp
  show "map_of obj n = Some (PList [])" if "n \<in> {''models'', ''allowed_cache_controls''}"
    using Key_fields_list [OF that] d by blast
  show "map_of obj n = Some (PDict [])"
    if "n \<in> {''aliases'', ''config'', ''metadata'', ''permissions'', ''model_spend'', ''model_max_budget''}"
    using Key_fields_dict [OF that] by (rule d)
  show "map_of obj n = Some PNone"
    if "n \<in> {''litellm_budget_table'', ''user_id_rate_limits'', ''team_id_rate_limits''}"
    using Key_fields_none [OF that] by (rule d)
next
  assume u: "LiteLLM_UserTable kwargs = Inr obj"
  show "map_of obj ''spend'' = Some (PFloat 0)" if "dict_get kwargs ''spend'' = PNone"
    using User_spend_default [OF u that] .
  show "map_of obj ''models'' = Some (PList [])" if "dict_get kwargs ''models'' = PNone"
    using User_models_default [OF u that] .
  show "map_of obj ''model_max_budget'' = Some (PDict [])" if "map_of kwargs ''model_max_budget'' = None"
    using User_dict_defaults [OF u _ that] by simp
  show "map_of obj ''model_spend'' = Some (PDict [])" if "map_of kwargs ''model_spend'' = None"
    using User_dict_defaults [OF u _ that] by simp
next
  assume "LiteLLM_EndUserTable kwargs = Inr obj \<and> dict_get kwargs ''spend'' = PNone"
  then show "map_of obj ''spend'' = Some (PFloat 0)"
    using EndUser_spend_default by blast
next
  assume h: "LiteLLM_TeamTable loads kwargs = Inr obj \<and> map_of kwargs n = None"
  note d = Team_defaults [OF conjunct1 [OF h] _ conjunct2 [OF h]]
  show "map_of obj n = Some (PList [])"
    if "n \<in> {''admins'', ''members'', ''members_with_roles'', ''models''}"
    using Team_fields_list [OF that] d by blast
  show "map_of obj n = Some PNone" if "n \<in> {''spend'', ''metadata''}"
    using Team_fields_none [OF that] d by blast
qed

theorem record_defaults_witness:
  "(\<exists>obj. LiteLLM_VerificationToken [(''token'', PStr ''t1'')] = Inr obj
        \<and> map_of obj ''spend'' = Some (PFloat 0)
        \<and> map_of obj ''models'' = Some (PList [])
        \<and> map_of obj ''metadata'' = Some (PDict [])
        \<and> map_of obj ''litellm_budget_table'' = Some PNone)
   \<and> (\<exists>obj. LiteLLM_UserTable [(''user_id'', PStr ''u1''), (''max_budget'', PNone), (''user_email'', PNone)]
          = Inr obj
        \<and> map_of obj ''spend'' = Some (PFloat 0)
        \<and> map_of obj ''models'' = Some (PList [])
        \<and> map_of obj ''model_spend'' = Some (PDict []))
   \<and> (\<exists>obj. LiteLLM_EndUserTable [(''user_id'', PStr ''e1''), (''blocked'', PBool False)] = Inr obj
        \<and> map_of obj ''spend'' = Some (PFloat 0))
   \<and> (\<forall>loads. \<exists>obj. LiteLLM_TeamTable loads [(''team_id'', PStr ''t1'')] = Inr obj
        \<and> map_of obj ''members'' = Some (PList [])
        \<and> map_of obj ''spend'' = Some PNone)"
proof (intro conjI allI)
  let ?k = "[(''token'', PStr ''t1'')]"
  have "fields_ok LiteLLM_VerificationToken_fields ?k"
    by (simp add: fields_ok_def LiteLLM_VerificationToken_fields_def)
  then obtain obj where obj: "LiteLLM_VerificationToken ?k = Inr obj"
    unfolding LiteLLM_VerificationToken_def
    using construct_Inr_iff [of Ignore LiteLLM_VerificationToken_fields no_validator ?k]
    by (auto simp: no_validator_def)
  from obj
    record_defaults [of ?k obj "''spend''"]
    record_defaults [of ?k obj "''models''"]
    record_defaults [of ?k obj "''metadata''"]
    record_defaults [of ?k obj "''litellm_budget_table''"]
  show "\<exists>obj. LiteLLM_VerificationToken ?k = Inr obj
        \<and> map_of obj ''spend'' = Some (PFloat 0)
        \<and> map_of obj ''models'' = Some (PList [])
        \<and> map_of obj ''metadata'' = Some (PDict [])
        \<and> map_of obj ''litellm_budget_table'' = Some PNone"
    by simp
next
  let ?u = "[(''user_id'', PStr ''u1''), (''max_budget'', PNone), (''user_email'', PNone)]"
  have pre: "LiteLLM_UserTable_set_model_info ?u =
      Inr (?u @ [(''spend'', PFloat 0), (''models'', PList [])])"
    by (simp add: LiteLLM_UserTable_set_model_info_def dict_get_def)
  have "fields_ok LiteLLM_UserTable_fields (?u @ [(''spend'', PFloat 0), (''models'', PList [])])"
    by (simp add: fields_ok_def LiteLLM_UserTable_fields_def)
  with pre obtain obj where obj: "LiteLLM_UserTable ?u = Inr obj"
    unfolding LiteLLM_UserTable_def
    using construct_Inr_iff [of Ignore LiteLLM_UserTable_fields LiteLLM_UserTable_set_model_info ?u]
    by auto
  from obj record_defaults [of ?u obj]
  show "\<exists>obj. LiteLLM_UserTable ?u = Inr obj
        \<and> map_of obj ''spend'' = Some (PFloat 0)
        \<and> map_of obj ''models'' = Some (PList [])
        \<and> map_of obj ''model_spend'' = Some (PDict [])"
    by (simp add: dict_get_def)
next
  let ?e = "[(''user_id'', PStr ''e1''), (''blocked'', PBool False)]"
  have pre: "LiteLLM_EndUserTable_set_model_info ?e = Inr (?e @ [(''spend'', PFloat 0)])"
    by (simp add: LiteLLM_EndUserTable_set_model_info_def dict_get_def)
  have "fields_ok LiteLLM_EndUserTable_fields (?e @ [(''spend'', PFloat 0)])"
    by (simp add: fields_ok_def LiteLLM_EndUserTable_fields_def)
  with pre obtain obj where obj: "LiteLLM_EndUserTable ?e = Inr obj"
    unfolding LiteLLM_EndUserTable_def
    using construct_Inr_iff [of Ignore LiteLLM_EndUserTable_fields LiteLLM_EndUserTable_set_model_info ?e]
    by auto
  from obj record_defaults [of ?e obj]
  show "\<exists>obj. LiteLLM_EndUserTable ?e = Inr obj \<and> map_of obj ''spend'' = Some (PFloat 0)"
    by (simp add: dict_get_def)
next
  fix loads :: "string \<Rightarrow> pyval option"
  let ?t = "[(''team_id'', PStr ''t1'')]"
  have pre: "LiteLLM_TeamTable_set_model_info loads ?t = Inr ?t"
    by (simp add: LiteLLM_TeamTable_set_model_info_def LiteLLM_TeamTable_dict_fields_def dict_get_def)
  have "fields_ok LiteLLM_TeamTable_fields ?t"
    by (simp add: fields_ok_def LiteLLM_TeamTable_fields_def TeamBase_fields_def inherit_def)
  with pre obtain obj where obj: "LiteLLM_TeamTable loads ?t = Inr obj"
    unfolding LiteLLM_TeamTable_def
    using construct_Inr_iff [of Ignore LiteLLM_TeamTable_fields
        "LiteLLM_TeamTable_set_model_info loads" ?t]
    by auto
  from obj
    record_defaults [of ?t obj "''members''" loads]
    record_defaults [of ?t obj "''spend''" loads]
  show "\<exists>obj. LiteLLM_TeamTable loads ?t = Inr obj
        \<and> map_of obj ''members'' = Some (PList [])
        \<and> map_of obj ''spend'' = Some PNone"
    by simp
qed

text \<open>
  C9 as stated fails on the Team record: constructed without \<^verbatim>\<open>spend\<close> and without
  \<^verbatim>\<open>metadata\<close>, it carries \<^verbatim>\<open>None\<close> in both fields.
\<close>

theorem Team_spend_default_counterexample:
  "\<forall>loads.
     map_sum id (\<lambda>obj. (map_of obj ''spend'', map_of obj ''metadata''))
       (LiteLLM_TeamTable loads [(''team_id'', PStr ''t1'')])
     = Inr (Some PNone, Some PNone)"
  by (simp add: LiteLLM_TeamTable_def construct_def validate_model_def
      LiteLLM_TeamTable_set_model_info_def LiteLLM_TeamTable_dict_fields_def dict_get_def
      LiteLLM_TeamTable_fields_def TeamBase_fields_def inherit_def)

section \<open>Claims on rate limits and route permissions\<close>

text \<open>
  C3. For each of rpm, tpm and max_parallel on its own, \<^verbatim>\<open>resolve_limits\<close> returns the
  Key's value if it is set, else the User's, else the Team's, else no limit. With no tpm
  limit on the Key and the User and a Team tpm limit of 1000 the result has tpm 1000;
  with the Key's tpm limit set to 500 the same call returns tpm 500.
\<close>

theorem resolve_limits_precedence:
  "rpm (resolve_limits key user team) =
     (if rpm_limit key \<noteq> None then rpm_limit key
      else if rpm_limit user \<noteq> None then rpm_limit user else rpm_limit team)
   \<and> tpm (resolve_limits key user team) =
     (if tpm_limit key \<noteq> None then tpm_limit key
      else if tpm_limit user \<noteq> None then tpm_limit user else tpm_limit team)
   \<and> max_parallel (resolve_limits key user team) =
     (if max_parallel_requests key \<noteq> None then max_parallel_requests key
      else if max_parallel_requests user \<noteq> None then max_parallel_requests user
      else max_parallel_requests team)
   \<and> (tpm_limit key = None \<and> tpm_limit user = None \<and> tpm_limit team = Some 1000 \<longrightarrow>
        tpm (resolve_limits key user team) = Some 1000
      \<and> tpm (resolve_limits (ScopeLimits (rpm_limit key) (Some 500) (max_parallel_requests key))
                user team) = Some 500)"
  by (cases key; cases user; cases team)
     (auto simp: resolve_limits_def first_set_def split: option.splits)

theorem resolve_limits_precedence_witness:
  "tpm (resolve_limits (ScopeLimits (Some 60) None None) (ScopeLimits None None None)
          (ScopeLimits (Some 10) (Some 1000) None)) = Some 1000
   \<and> rpm (resolve_limits (ScopeLimits (Some 60) None None) (ScopeLimits None None None)
          (ScopeLimits (Some 10) (Some 1000) None)) = Some 60
   \<and> max_parallel (resolve_limits (ScopeLimits (Some 60) None None) (ScopeLimits None None None)
          (ScopeLimits (Some 10) (Some 1000) None)) = None
   \<and> tpm (resolve_limits (ScopeLimits (Some 60) (Some 500) None) (ScopeLimits None None None)
          (ScopeLimits (Some 10) (Some 1000) None)) = Some 500"
  using resolve_limits_precedence
    [of "ScopeLimits (Some 60) None None" "ScopeLimits None None None"
        "ScopeLimits (Some 10) (Some 1000) None"]
  by simp

lemma key_generate_not_public: "in_group ''/key/generate'' public_routes = False"
  by (simp add: in_group_def public_routes_def matches_template_def is_placeholder_def)

lemma key_generate_not_master: "in_group ''/key/generate'' master_key_only_routes = False"
  by (simp add: in_group_def master_key_only_routes_def matches_template_def is_placeholder_def)

lemma key_generate_not_openai: "in_group ''/key/generate'' openai_routes = False"
  by (simp add: in_group_def openai_routes_def matches_template_def is_placeholder_def)

lemma key_generate_not_info: "in_group ''/key/generate'' info_routes = False"
  by (simp add: in_group_def info_routes_def matches_template_def is_placeholder_def)

lemma chat_not_public: "in_group ''/v1/chat/completions'' public_routes = False"
  by (simp add: in_group_def public_routes_def matches_template_def is_placeholder_def)

lemma chat_not_master: "in_group ''/v1/chat/completions'' master_key_only_routes = False"
  by (simp add: in_group_def master_key_only_routes_def matches_template_def is_placeholder_def)

lemma chat_not_sso: "in_group ''/v1/chat/completions'' sso_only_routes = False"
  by (simp add: in_group_def sso_only_routes_def matches_template_def is_placeholder_def)

lemma chat_openai: "in_group ''/v1/chat/completions'' openai_routes = True"
  by (simp add: in_group_def openai_routes_def matches_template_def is_placeholder_def)

text \<open>
  C2. With the default team allow-list (\<^verbatim>\<open>openai_routes\<close> and \<^verbatim>\<open>info_routes\<close>), a caller
  without the admin scope and with a team-id claim is denied \<^verbatim>\<open>/key/generate\<close> and allowed
  \<^verbatim>\<open>/v1/chat/completions\<close>. \<^verbatim>\<open>/key/generate\<close> is in \<^verbatim>\<open>sso_only_routes\<close> and
  \<^verbatim>\<open>management_routes\<close> and in neither \<^verbatim>\<open>openai_routes\<close> nor \<^verbatim>\<open>info_routes\<close>;
  \<^verbatim>\<open>/v1/chat/completions\<close> is in \<^verbatim>\<open>openai_routes\<close>.
\<close>

theorem team_caller_routes:
  assumes "allowed_routes_of jwt_auth ''team_allowed_routes'' = [''openai_routes'', ''info_routes'']"
    and "\<not> admin_scope p"
    and "team_id_claim p \<noteq> None"
  shows "(\<exists>reason. authorize_route settings jwt_auth p ''/key/generate'' = Denied reason)
       \<and> authorize_route settings jwt_auth p ''/v1/chat/completions'' = Allowed
       \<and> ''/key/generate'' \<in> set sso_only_routes
       \<and> ''/key/generate'' \<in> set management_routes
       \<and> ''/key/generate'' \<notin> set openai_routes
       \<and> ''/key/generate'' \<notin> set info_routes
       \<and> ''/v1/chat/completions'' \<in> set openai_routes"
proof (intro conjI)
  show "\<exists>reason. authorize_route settings jwt_auth p ''/key/generate'' = Denied reason"
    using assms
    by (simp add: authorize_route_def key_generate_not_public key_generate_not_master
        key_generate_not_openai key_generate_not_info route_group_def)
  show "authorize_route settings jwt_auth p ''/v1/chat/completions'' = Allowed"
    using assms
    by (simp add: authorize_route_def chat_not_public chat_not_master chat_not_sso chat_openai
        route_group_def)
qed (simp_all add: sso_only_routes_def management_routes_def openai_routes_def info_routes_def)

theorem team_caller_routes_witness:
  "\<exists>jwt_auth. LiteLLM_JWTAuth [] = Inr jwt_auth
     \<and> authorize_route (AuthSettings (Some ''sk-master'') []) jwt_auth
           (Principal ''jwt-token'' False False (Some ''team-1'')) ''/key/generate''
         = Denied ''sso_required''
     \<and> authorize_route (AuthSettings (Some ''sk-master'') []) jwt_auth
           (Principal ''jwt-token'' True False (Some ''team-1'')) ''/key/generate''
         = Denied ''route_not_permitted''
     \<and> authorize_route (AuthSettings (Some ''sk-master'') []) jwt_auth
           (Principal ''jwt-token'' False False (Some ''team-1'')) ''/v1/chat/completions''
         = Allowed"
proof -
  have "fields_ok LiteLLM_JWTAuth_fields []"
    by (simp add: fields_ok_def LiteLLM_JWTAuth_fields_def)
  then obtain jwt_auth where v: "validate_fields LiteLLM_JWTAuth_fields [] = Inr jwt_auth"
    using validate_fields_Inr_iff by blast
  then have c: "LiteLLM_JWTAuth [] = Inr jwt_auth"
    by (simp add: LiteLLM_JWTAuth_def dict_keys_def construct_def no_validator_def
        validate_model_def)
  have "map_of jwt_auth ''team_allowed_routes'' = Some (PList [PStr ''openai_routes'', PStr ''info_routes''])"
    by (rule default_when_absent [OF v]) (simp_all add: LiteLLM_JWTAuth_fields_def)
  then have a: "allowed_routes_of jwt_auth ''team_allowed_routes'' = [''openai_routes'', ''info_routes'']"
    by (simp add: allowed_routes_of_def dict_get_def)
  let ?s = "AuthSettings (Some ''sk-master'') []"
  let ?p = "Principal ''jwt-token'' False False (Some ''team-1'')"
  let ?q = "Principal ''jwt-token'' True False (Some ''team-1'')"
  have sso: "in_group ''/key/generate'' sso_only_routes"
    by (simp add: in_group_def sso_only_routes_def matches_template_def is_placeholder_def)
  from team_caller_routes [OF a, of ?p ?s]
  have 1: "authorize_route ?s jwt_auth ?p ''/key/generate'' = Denied ''sso_required''"
    and 3: "authorize_route ?s jwt_auth ?p ''/v1/chat/completions'' = Allowed"
    by (auto simp: authorize_route_def key_generate_not_public key_generate_not_master sso)
  from team_caller_routes [OF a, of ?q ?s]
  have 2: "authorize_route ?s jwt_auth ?q ''/key/generate'' = Denied ''route_not_permitted''"
    by (auto simp: authorize_route_def key_generate_not_public key_generate_not_master Let_def
        split: if_splits)
  from c 1 2 3 show ?thesis by blast
qed

section \<open>Claims on fields stored as text\<close>











section \<open>Claim on the round trip\<close>




section \<open>The codec reads back what it writes\<close>










































end
